theory Spec2Isabelle
  imports Main "HOL-Library.Word"
begin

unbundle bit_operations_syntax

section \<open>The directory watcher of src/filemanager/dirwatch.c\<close>

text \<open>
  The watcher keeps ten file-scope variables and talks to three collaborators: the kernel
  (inotify and timerfd), the select loop of the terminal layer, and the two file panels.
  The embedding makes the ten variables a record, passes the collaborators' answers in as
  a second record (the \<open>world\<close> a call runs in), and appends every call that leaves the
  watcher to a log kept beside the variables, so that "no watch is removed", "reload fires
  once" and "nothing happens" are statements about that log.

  C \<open>int\<close> values (descriptors, watch descriptors, the panel view enum) are HOL integers:
  the code only compares them and never does arithmetic on them. A \<open>char *\<close> that may be
  \<open>NULL\<close> is a \<open>string option\<close>, and \<open>strcmp (a, b) != 0\<close> is inequality of the strings.
  A \<open>WPanel *\<close> is an optional address into a heap of panels. A \<open>gboolean\<close> is a HOL
  boolean: callers pass \<open>TRUE\<close> or \<open>FALSE\<close>. The model is that of the \<open>__linux__\<close> half of
  the file; the other half defines the three public functions with empty bodies.
\<close>

subsection \<open>Panels and the answers of the collaborators\<close>

text \<open>
  \<open>WPanel\<close> is declared in panel.h, which is not part of the sources at hand; the watcher
  reads \<open>p->is_panelized\<close> and \<open>p->cwd_vpath\<close>, and hands the latter to
  \<open>vfs_path_as_str\<close> and \<open>vfs_file_is_local\<close>. The record carries the flag and the two
  answers for the panel's \<open>cwd_vpath\<close>.
\<close>

record WPanel =
  is_panelized :: bool
  cwd_vpath_as_str :: "string option"
  cwd_vpath_is_local :: bool

datatype site = LeftSite | RightSite

text \<open>
  The world of one call. \<open>get_panel_type\<close> and the enum constant \<open>view_listing\<close> come from
  layout.h and are taken as given. \<open>inotify_add_watch\<close> is the kernel's answer to
  \<open>inotify_add_watch (fd, path, DW_MASK)\<close>; its first argument names the block of
  \<open>dirwatch_update_watches\<close> that asks, so that the kernel may answer the two requests of
  one update differently (a negative answer is a failure).
\<close>

record world =
  left_panel :: "nat option"
  right_panel :: "nat option"
  panel_at :: "nat \<Rightarrow> WPanel"
  get_panel_type :: "nat \<Rightarrow> int"
  view_listing :: int
  dynamic_file_list_debounce_sec :: int
  inotify_init1 :: int
  timerfd_create :: int
  inotify_add_watch :: "site \<Rightarrow> int \<Rightarrow> string \<Rightarrow> int"

subsection \<open>Calls that leave the watcher\<close>

datatype call =
    Inotify_init1
  | Timerfd_create
  | Inotify_add_watch int string "32 word"
  | Inotify_rm_watch int int
  | Timerfd_settime int int
  | Close int
  | Add_select_channel int
  | Delete_select_channel int
  | Panel_reload nat
  | Repaint_screen

definition IN_ATTRIB :: "32 word" where "IN_ATTRIB = 0x004"
definition IN_MOVED_FROM :: "32 word" where "IN_MOVED_FROM = 0x040"
definition IN_MOVED_TO :: "32 word" where "IN_MOVED_TO = 0x080"
definition IN_CREATE :: "32 word" where "IN_CREATE = 0x100"
definition IN_DELETE :: "32 word" where "IN_DELETE = 0x200"
definition IN_DELETE_SELF :: "32 word" where "IN_DELETE_SELF = 0x400"
definition IN_MOVE_SELF :: "32 word" where "IN_MOVE_SELF = 0x800"

definition DW_MASK :: "32 word" where
  "DW_MASK = IN_CREATE OR IN_DELETE OR IN_MOVED_FROM OR IN_MOVED_TO OR IN_DELETE_SELF
               OR IN_MOVE_SELF OR IN_ATTRIB"

subsection \<open>The watcher's variables\<close>

record dw_state =
  inotify_fd :: int
  timer_fd :: int
  wd_left :: int
  wd_right :: int
  left_path :: "string option"
  right_path :: "string option"
  watcher_enabled :: bool
  watcher_quiet :: bool
  pending_left :: bool
  pending_right :: bool
  calls :: "call list"

text \<open>The initialisers of the file-scope variables, with nothing called yet.\<close>

definition dw_init :: dw_state where
  "dw_init = \<lparr> inotify_fd = - 1, timer_fd = - 1, wd_left = - 1, wd_right = - 1,
               left_path = None, right_path = None,
               watcher_enabled = False, watcher_quiet = False,
               pending_left = False, pending_right = False, calls = [] \<rparr>"

definition do_call :: "call \<Rightarrow> dw_state \<Rightarrow> dw_state" where
  "do_call c s = s\<lparr>calls := calls s @ [c]\<rparr>"

subsection \<open>Helpers of the source\<close>

definition dirwatch_reset_paths :: "dw_state \<Rightarrow> dw_state" where
  "dirwatch_reset_paths s = s\<lparr>left_path := None, right_path := None\<rparr>"

definition dirwatch_clear_watches :: "dw_state \<Rightarrow> dw_state" where
  "dirwatch_clear_watches s =
     (let s1 = (if 0 \<le> inotify_fd s then
                  (let a = (if 0 \<le> wd_left s
                            then do_call (Inotify_rm_watch (inotify_fd s) (wd_left s)) s else s);
                       b = (if 0 \<le> wd_right a
                            then do_call (Inotify_rm_watch (inotify_fd a) (wd_right a)) a else a)
                   in b)
                else s)
      in dirwatch_reset_paths (s1\<lparr>wd_left := - 1, wd_right := - 1\<rparr>))"

definition dirwatch_disarm_timer :: "dw_state \<Rightarrow> dw_state" where
  "dirwatch_disarm_timer s =
     (if 0 \<le> timer_fd s then do_call (Timerfd_settime (timer_fd s) 0) s else s)"

definition dirwatch_arm_timer :: "world \<Rightarrow> dw_state \<Rightarrow> dw_state" where
  "dirwatch_arm_timer w s =
     (if timer_fd s < 0 then s
      else let secs = dynamic_file_list_debounce_sec w;
               secs = (if secs < 1 then 1 else secs)
           in do_call (Timerfd_settime (timer_fd s) secs) s)"

text \<open>
  \<open>dirwatch_panel_should_watch (p, &path)\<close>: \<open>None\<close> is the answer \<open>FALSE\<close>, \<open>Some path\<close>
  the answer \<open>TRUE\<close> with the path stored through the out parameter.
\<close>

definition dirwatch_panel_should_watch :: "world \<Rightarrow> nat option \<Rightarrow> string option" where
  "dirwatch_panel_should_watch w p =
     (case p of
        None \<Rightarrow> None
      | Some a \<Rightarrow>
          if get_panel_type w (if p = left_panel w then 0 else 1) \<noteq> view_listing w then None
          else if is_panelized (panel_at w a) then None
          else (case cwd_vpath_as_str (panel_at w a) of
                  None \<Rightarrow> None
                | Some path \<Rightarrow>
                    if \<not> cwd_vpath_is_local (panel_at w a) then None else Some path))"

subsection \<open>The watch registry\<close>

text \<open>The block under \<open>/* Left panel */\<close> of \<open>dirwatch_update_watches\<close>.\<close>

definition update_left :: "world \<Rightarrow> dw_state \<Rightarrow> dw_state" where
  "update_left w s =
     (case dirwatch_panel_should_watch w (left_panel w) of
        Some path \<Rightarrow>
          if left_path s = None \<or> left_path s \<noteq> Some path then
            (let s1 = (if 0 \<le> wd_left s
                       then do_call (Inotify_rm_watch (inotify_fd s) (wd_left s)) s else s);
                 s2 = do_call (Inotify_add_watch (inotify_fd s) path DW_MASK) s1
             in s2\<lparr>wd_left := inotify_add_watch w LeftSite (inotify_fd s) path,
                    left_path := Some path\<rparr>)
          else s
      | None \<Rightarrow>
          if 0 \<le> wd_left s then
            (do_call (Inotify_rm_watch (inotify_fd s) (wd_left s)) s)
              \<lparr>wd_left := - 1, left_path := None\<rparr>
          else s)"

text \<open>The block under \<open>/* Right panel */\<close>.\<close>

definition update_right :: "world \<Rightarrow> dw_state \<Rightarrow> dw_state" where
  "update_right w s =
     (case dirwatch_panel_should_watch w (right_panel w) of
        Some path \<Rightarrow>
          if right_path s = None \<or> right_path s \<noteq> Some path then
            (let s1 = (if 0 \<le> wd_right s
                       then do_call (Inotify_rm_watch (inotify_fd s) (wd_right s)) s else s);
                 s2 = do_call (Inotify_add_watch (inotify_fd s) path DW_MASK) s1
             in s2\<lparr>wd_right := inotify_add_watch w RightSite (inotify_fd s) path,
                    right_path := Some path\<rparr>)
          else s
      | None \<Rightarrow>
          if 0 \<le> wd_right s then
            (do_call (Inotify_rm_watch (inotify_fd s) (wd_right s)) s)
              \<lparr>wd_right := - 1, right_path := None\<rparr>
          else s)"

definition dirwatch_update_watches :: "world \<Rightarrow> dw_state \<Rightarrow> dw_state" where
  "dirwatch_update_watches w s =
     (if \<not> watcher_enabled s \<or> inotify_fd s < 0 then s
      else update_right w (update_left w s))"

subsection \<open>The event source\<close>

text \<open>
  A \<open>struct inotify_event\<close>. The kernel hands complete records to \<open>read\<close>, so a buffer is
  a list of records and the pointer walk \<open>ptr += sizeof (struct inotify_event) + ev->len\<close>
  is the walk down that list. The argument \<open>reads\<close> of \<open>dirwatch_callback\<close> lists the
  buffers of the reads that return a positive length; the read after the last of them
  returns no data and ends the loop.
\<close>

record inotify_event =
  ev_wd :: int
  ev_mask :: "32 word"
  ev_cookie :: "32 word"
  ev_name :: string

text \<open>The inner loop: the two local flags \<open>need_left\<close> and \<open>need_right\<close> over one buffer.\<close>

fun scan_buffer :: "dw_state \<Rightarrow> inotify_event list \<Rightarrow> bool \<times> bool \<Rightarrow> bool \<times> bool" where
  "scan_buffer s [] need = need"
| "scan_buffer s (ev # evs) (need_left, need_right) =
     scan_buffer s evs
       (if ev_wd ev = wd_left s then True else need_left,
        if ev_wd ev = wd_right s then True else need_right)"

text \<open>The outer loop over the reads.\<close>

fun drain_reads :: "dw_state \<Rightarrow> inotify_event list list \<Rightarrow> bool \<times> bool \<Rightarrow> bool \<times> bool" where
  "drain_reads s [] need = need"
| "drain_reads s (buf # bufs) need = drain_reads s bufs (scan_buffer s buf need)"

definition dirwatch_callback ::
  "world \<Rightarrow> int \<Rightarrow> inotify_event list list \<Rightarrow> dw_state \<Rightarrow> dw_state" where
  "dirwatch_callback w fd reads s =
     (if fd \<noteq> inotify_fd s then s
      else let (need_left, need_right) = drain_reads s reads (False, False);
               s1 = (if need_left then s\<lparr>pending_left := True\<rparr> else s);
               s2 = (if need_right then s1\<lparr>pending_right := True\<rparr> else s1)
           in if pending_left s2 \<or> pending_right s2 then dirwatch_arm_timer w s2 else s2)"

subsection \<open>The debounce timer\<close>

definition dirwatch_apply_pending :: "world \<Rightarrow> dw_state \<Rightarrow> dw_state" where
  "dirwatch_apply_pending w s =
     (let do_left = pending_left s;
          do_right = pending_right s;
          s1 = s\<lparr>pending_left := False, pending_right := False\<rparr>;
          s2 = (case left_panel w of
                  Some a \<Rightarrow> if do_left then do_call (Panel_reload a) s1 else s1
                | None \<Rightarrow> s1);
          s3 = (case right_panel w of
                  Some a \<Rightarrow> if do_right then do_call (Panel_reload a) s2 else s2
                | None \<Rightarrow> s2);
          s4 = (if do_left \<or> do_right then do_call Repaint_screen s3 else s3)
      in dirwatch_disarm_timer s4)"

definition dirwatch_timer_callback :: "world \<Rightarrow> int \<Rightarrow> dw_state \<Rightarrow> dw_state" where
  "dirwatch_timer_callback w fd s =
     (if fd \<noteq> timer_fd s then s
      else if watcher_quiet s then dirwatch_disarm_timer s
      else dirwatch_apply_pending w s)"

subsection \<open>The public operations\<close>

text \<open>
  The two halves of \<open>dirwatch_set_enabled\<close> after the assignment to \<open>watcher_enabled\<close>.
  In \<open>enable_branch\<close> the \<open>return\<close> after a failed \<open>inotify_init1\<close> is the \<open>Inl\<close> of the
  first step; \<open>Inr\<close> goes on to the timer.
\<close>

definition disable_branch :: "dw_state \<Rightarrow> dw_state" where
  "disable_branch s =
     (let s1 = (if 0 \<le> inotify_fd s then
                  (let a = do_call (Delete_select_channel (inotify_fd s)) s;
                       b = dirwatch_clear_watches a;
                       c = do_call (Close (inotify_fd b)) b
                   in c\<lparr>inotify_fd := - 1\<rparr>)
                else s);
          s2 = (if 0 \<le> timer_fd s1 then
                  (let a = do_call (Delete_select_channel (timer_fd s1)) s1;
                       b = do_call (Close (timer_fd a)) a
                   in b\<lparr>timer_fd := - 1\<rparr>)
                else s1)
      in s2)"

definition enable_branch :: "world \<Rightarrow> dw_state \<Rightarrow> dw_state" where
  "enable_branch w s =
     (case (if inotify_fd s < 0 then
              (let a = (do_call Inotify_init1 s)\<lparr>inotify_fd := inotify_init1 w\<rparr>
               in if inotify_fd a < 0 then Inl (a\<lparr>watcher_enabled := False\<rparr>)
                  else Inr (do_call (Add_select_channel (inotify_fd a)) a))
            else Inr s) of
        Inl stopped \<Rightarrow> stopped
      | Inr s1 \<Rightarrow>
          (let s2 = (if timer_fd s1 < 0 then
                       (let a = (do_call Timerfd_create s1)\<lparr>timer_fd := timerfd_create w\<rparr>
                        in if 0 \<le> timer_fd a
                           then do_call (Add_select_channel (timer_fd a)) a else a)
                     else s1)
           in dirwatch_update_watches w s2))"

definition dirwatch_set_enabled :: "world \<Rightarrow> bool \<Rightarrow> dw_state \<Rightarrow> dw_state" where
  "dirwatch_set_enabled w enabled s =
     (if enabled = watcher_enabled s then
        (if enabled then dirwatch_update_watches w s else s)
      else
        let s1 = s\<lparr>watcher_enabled := enabled\<rparr>
        in if \<not> enabled then disable_branch s1 else enable_branch w s1)"

definition dirwatch_set_quiet :: "world \<Rightarrow> bool \<Rightarrow> dw_state \<Rightarrow> dw_state" where
  "dirwatch_set_quiet w quiet s =
     (if \<not> watcher_enabled s \<or> watcher_quiet s = quiet then s
      else let s1 = s\<lparr>watcher_quiet := quiet\<rparr>
           in if \<not> watcher_quiet s1 \<and> (pending_left s1 \<or> pending_right s1)
              then dirwatch_apply_pending w s1 else s1)"

text \<open>The panel argument is cast to \<open>void\<close> by the source.\<close>

definition dirwatch_panel_dir_changed :: "world \<Rightarrow> nat option \<Rightarrow> dw_state \<Rightarrow> dw_state" where
  "dirwatch_panel_dir_changed w panel s =
     (if \<not> watcher_enabled s then s else dirwatch_update_watches w s)"

subsection \<open>Reachable states\<close>

text \<open>
  The states the variables can be in: the initial state, and any state the three public
  operations and the two select-loop callbacks make of a reachable one, in any world and
  with any arguments.
\<close>

inductive reachable :: "dw_state \<Rightarrow> bool" where
  r_init: "reachable dw_init"
| r_set_enabled: "reachable s \<Longrightarrow> reachable (dirwatch_set_enabled w b s)"
| r_set_quiet: "reachable s \<Longrightarrow> reachable (dirwatch_set_quiet w q s)"
| r_dir_changed: "reachable s \<Longrightarrow> reachable (dirwatch_panel_dir_changed w p s)"
| r_callback: "reachable s \<Longrightarrow> reachable (dirwatch_callback w fd reads s)"
| r_timer: "reachable s \<Longrightarrow> reachable (dirwatch_timer_callback w fd s)"

subsection \<open>Slots, the calls of an apply, and runs\<close>







text \<open>
  The reloads one apply makes, in the order of the source: one for each pending slot whose
  panel pointer is not \<open>NULL\<close>, the left one first; and all calls of one apply.
\<close>

definition reload_calls :: "world \<Rightarrow> dw_state \<Rightarrow> call list" where
  "reload_calls w s =
     (case left_panel w of
        Some a \<Rightarrow> if pending_left s then [Panel_reload a] else []
      | None \<Rightarrow> [])
     @ (case right_panel w of
          Some a \<Rightarrow> if pending_right s then [Panel_reload a] else []
        | None \<Rightarrow> [])"

definition apply_calls :: "world \<Rightarrow> dw_state \<Rightarrow> call list" where
  "apply_calls w s =
     reload_calls w s
     @ (if pending_left s \<or> pending_right s then [Repaint_screen] else [])
     @ (if 0 \<le> timer_fd s then [Timerfd_settime (timer_fd s) 0] else [])"

text \<open>
  The five entry points as events, so that a run is a list of events.
\<close>

datatype event =
    Set_enabled world bool
  | Set_quiet world bool
  | Panel_dir_changed world "nat option"
  | Inotify_readable world int "inotify_event list list"
  | Timer_readable world int

fun step :: "event \<Rightarrow> dw_state \<Rightarrow> dw_state" where
  "step (Set_enabled w b) s = dirwatch_set_enabled w b s"
| "step (Set_quiet w q) s = dirwatch_set_quiet w q s"
| "step (Panel_dir_changed w p) s = dirwatch_panel_dir_changed w p s"
| "step (Inotify_readable w fd reads) s = dirwatch_callback w fd reads s"
| "step (Timer_readable w fd) s = dirwatch_timer_callback w fd s"

fun run :: "event list \<Rightarrow> dw_state \<Rightarrow> dw_state" where
  "run [] s = s"
| "run (e # es) s = run es (step e s)"

fun enables :: "event \<Rightarrow> bool" where
  "enables (Set_enabled w b) = b"
| "enables e = False"

subsection \<open>What holds in every reachable state\<close>

text \<open>
  While the watcher is enabled it has its inotify descriptor; while it is disabled it has
  neither descriptor, no watch descriptor and no path.
\<close>

definition dw_inv :: "dw_state \<Rightarrow> bool" where
  "dw_inv s = (if watcher_enabled s then 0 \<le> inotify_fd s
               else inotify_fd s < 0 \<and> timer_fd s < 0 \<and> wd_left s < 0 \<and> wd_right s < 0
                    \<and> left_path s = None \<and> right_path s = None)"

subsection \<open>Concrete runs\<close>

text \<open>
  A listing panel showing a local directory, and a world with the left panel in \<open>/tmp\<close>
  and the right panel in \<open>/var\<close>, where the kernel hands out descriptors 3 and 4 and
  watch descriptors 1 and 2.
\<close>


definition panel_in :: "string \<Rightarrow> WPanel" where
  "panel_in d = \<lparr> is_panelized = False, cwd_vpath_as_str = Some d, cwd_vpath_is_local = True \<rparr>"

definition world_tmp_var :: world where
  "world_tmp_var =
     \<lparr> left_panel = Some 1, right_panel = Some 2,
       panel_at = (\<lambda>a. if a = 1 then panel_in ''/tmp'' else panel_in ''/var''),
       get_panel_type = (\<lambda>i. 0), view_listing = 0,
       dynamic_file_list_debounce_sec = 2,
       inotify_init1 = 3, timerfd_create = 4,
       inotify_add_watch = (\<lambda>site fd path. if path = ''/tmp'' then 1 else 2) \<rparr>"

definition watching :: dw_state where
  "watching = dirwatch_set_enabled world_tmp_var True dw_init"

definition change_in_tmp :: inotify_event where
  "change_in_tmp = \<lparr> ev_wd = 1, ev_mask = IN_CREATE, ev_cookie = 0, ev_name = ''f'' \<rparr>"

definition left_pending :: dw_state where
  "left_pending = dirwatch_callback world_tmp_var 3 [[change_in_tmp]] watching"

text \<open>
  Further worlds: the kernel refuses every watch; the right panel has moved to \<open>/home\<close>;
  the left panel pointer is \<open>NULL\<close>; the kernel has no timer, or no inotify instance, to
  give; both panels show \<open>/tmp\<close> and share watch descriptor 1.
\<close>

definition world_denied :: world where
  "world_denied =
     \<lparr> left_panel = Some 1, right_panel = None,
       panel_at = (\<lambda>a. panel_in ''/root''),
       get_panel_type = (\<lambda>i. 0), view_listing = 0,
       dynamic_file_list_debounce_sec = 2,
       inotify_init1 = 3, timerfd_create = 4,
       inotify_add_watch = (\<lambda>site fd path. - 1) \<rparr>"


definition world_left_gone :: world where
  "world_left_gone = world_tmp_var \<lparr> left_panel := None \<rparr>"

definition world_no_timer :: world where
  "world_no_timer = world_tmp_var \<lparr> timerfd_create := - 1 \<rparr>"

definition world_no_inotify :: world where
  "world_no_inotify = world_tmp_var \<lparr> inotify_init1 := - 1 \<rparr>"




definition quiet_watching :: dw_state where
  "quiet_watching = dirwatch_set_quiet world_tmp_var True watching"

definition quiet_left_pending :: dw_state where
  "quiet_left_pending =
     dirwatch_callback world_tmp_var 3 [[change_in_tmp]]
       (dirwatch_set_quiet world_tmp_var True watching)"

definition quiet_pending_disabled :: dw_state where
  "quiet_pending_disabled = dirwatch_set_enabled world_tmp_var False quiet_left_pending"





section \<open>Basic facts\<close>

lemmas dw_eval =
  dirwatch_set_enabled_def enable_branch_def disable_branch_def dirwatch_update_watches_def
  update_left_def update_right_def dirwatch_panel_should_watch_def dirwatch_clear_watches_def
  dirwatch_reset_paths_def dirwatch_callback_def dirwatch_arm_timer_def dirwatch_disarm_timer_def
  dirwatch_apply_pending_def dirwatch_timer_callback_def dirwatch_set_quiet_def
  dirwatch_panel_dir_changed_def do_call_def dw_init_def Let_def

lemma do_call_fields [simp]:
  "inotify_fd (do_call c s) = inotify_fd s"
  "timer_fd (do_call c s) = timer_fd s"
  "wd_left (do_call c s) = wd_left s"
  "wd_right (do_call c s) = wd_right s"
  "left_path (do_call c s) = left_path s"
  "right_path (do_call c s) = right_path s"
  "watcher_enabled (do_call c s) = watcher_enabled s"
  "watcher_quiet (do_call c s) = watcher_quiet s"
  "pending_left (do_call c s) = pending_left s"
  "pending_right (do_call c s) = pending_right s"
  "calls (do_call c s) = calls s @ [c]"
  by (simp_all add: do_call_def)

lemma update_left_frame [simp]:
  "inotify_fd (update_left w s) = inotify_fd s"
  "timer_fd (update_left w s) = timer_fd s"
  "wd_right (update_left w s) = wd_right s"
  "right_path (update_left w s) = right_path s"
  "watcher_enabled (update_left w s) = watcher_enabled s"
  "watcher_quiet (update_left w s) = watcher_quiet s"
  "pending_left (update_left w s) = pending_left s"
  "pending_right (update_left w s) = pending_right s"
  by (simp_all add: update_left_def Let_def split: option.split)

lemma update_right_frame [simp]:
  "inotify_fd (update_right w s) = inotify_fd s"
  "timer_fd (update_right w s) = timer_fd s"
  "wd_left (update_right w s) = wd_left s"
  "left_path (update_right w s) = left_path s"
  "watcher_enabled (update_right w s) = watcher_enabled s"
  "watcher_quiet (update_right w s) = watcher_quiet s"
  "pending_left (update_right w s) = pending_left s"
  "pending_right (update_right w s) = pending_right s"
  by (simp_all add: update_right_def Let_def split: option.split)

lemma update_watches_frame [simp]:
  "inotify_fd (dirwatch_update_watches w s) = inotify_fd s"
  "timer_fd (dirwatch_update_watches w s) = timer_fd s"
  "watcher_enabled (dirwatch_update_watches w s) = watcher_enabled s"
  "watcher_quiet (dirwatch_update_watches w s) = watcher_quiet s"
  "pending_left (dirwatch_update_watches w s) = pending_left s"
  "pending_right (dirwatch_update_watches w s) = pending_right s"
  by (simp_all add: dirwatch_update_watches_def)

lemma update_watches_inv: "dw_inv s \<Longrightarrow> dw_inv (dirwatch_update_watches w s)"
  by (auto simp: dw_inv_def dirwatch_update_watches_def)

lemma disarm_frame [simp]:
  "inotify_fd (dirwatch_disarm_timer s) = inotify_fd s"
  "timer_fd (dirwatch_disarm_timer s) = timer_fd s"
  "wd_left (dirwatch_disarm_timer s) = wd_left s"
  "wd_right (dirwatch_disarm_timer s) = wd_right s"
  "left_path (dirwatch_disarm_timer s) = left_path s"
  "right_path (dirwatch_disarm_timer s) = right_path s"
  "watcher_enabled (dirwatch_disarm_timer s) = watcher_enabled s"
  "watcher_quiet (dirwatch_disarm_timer s) = watcher_quiet s"
  "pending_left (dirwatch_disarm_timer s) = pending_left s"
  "pending_right (dirwatch_disarm_timer s) = pending_right s"
  by (simp_all add: dirwatch_disarm_timer_def)

lemma arm_frame [simp]:
  "inotify_fd (dirwatch_arm_timer w s) = inotify_fd s"
  "timer_fd (dirwatch_arm_timer w s) = timer_fd s"
  "wd_left (dirwatch_arm_timer w s) = wd_left s"
  "wd_right (dirwatch_arm_timer w s) = wd_right s"
  "left_path (dirwatch_arm_timer w s) = left_path s"
  "right_path (dirwatch_arm_timer w s) = right_path s"
  "watcher_enabled (dirwatch_arm_timer w s) = watcher_enabled s"
  "watcher_quiet (dirwatch_arm_timer w s) = watcher_quiet s"
  "pending_left (dirwatch_arm_timer w s) = pending_left s"
  "pending_right (dirwatch_arm_timer w s) = pending_right s"
  by (simp_all add: dirwatch_arm_timer_def Let_def)

lemma apply_frame [simp]:
  "inotify_fd (dirwatch_apply_pending w s) = inotify_fd s"
  "timer_fd (dirwatch_apply_pending w s) = timer_fd s"
  "wd_left (dirwatch_apply_pending w s) = wd_left s"
  "wd_right (dirwatch_apply_pending w s) = wd_right s"
  "left_path (dirwatch_apply_pending w s) = left_path s"
  "right_path (dirwatch_apply_pending w s) = right_path s"
  "watcher_enabled (dirwatch_apply_pending w s) = watcher_enabled s"
  "watcher_quiet (dirwatch_apply_pending w s) = watcher_quiet s"
  "pending_left (dirwatch_apply_pending w s) = False"
  "pending_right (dirwatch_apply_pending w s) = False"
  by (simp_all add: dirwatch_apply_pending_def Let_def split: option.split)

lemma callback_frame [simp]:
  "inotify_fd (dirwatch_callback w fd reads s) = inotify_fd s"
  "timer_fd (dirwatch_callback w fd reads s) = timer_fd s"
  "wd_left (dirwatch_callback w fd reads s) = wd_left s"
  "wd_right (dirwatch_callback w fd reads s) = wd_right s"
  "left_path (dirwatch_callback w fd reads s) = left_path s"
  "right_path (dirwatch_callback w fd reads s) = right_path s"
  "watcher_enabled (dirwatch_callback w fd reads s) = watcher_enabled s"
  "watcher_quiet (dirwatch_callback w fd reads s) = watcher_quiet s"
  by (simp_all add: dirwatch_callback_def Let_def split: prod.split)

lemma timer_callback_frame [simp]:
  "inotify_fd (dirwatch_timer_callback w fd s) = inotify_fd s"
  "timer_fd (dirwatch_timer_callback w fd s) = timer_fd s"
  "wd_left (dirwatch_timer_callback w fd s) = wd_left s"
  "wd_right (dirwatch_timer_callback w fd s) = wd_right s"
  "left_path (dirwatch_timer_callback w fd s) = left_path s"
  "right_path (dirwatch_timer_callback w fd s) = right_path s"
  "watcher_enabled (dirwatch_timer_callback w fd s) = watcher_enabled s"
  "watcher_quiet (dirwatch_timer_callback w fd s) = watcher_quiet s"
  by (simp_all add: dirwatch_timer_callback_def)

lemma clear_watches_fields [simp]:
  "inotify_fd (dirwatch_clear_watches s) = inotify_fd s"
  "timer_fd (dirwatch_clear_watches s) = timer_fd s"
  "wd_left (dirwatch_clear_watches s) = - 1"
  "wd_right (dirwatch_clear_watches s) = - 1"
  "left_path (dirwatch_clear_watches s) = None"
  "right_path (dirwatch_clear_watches s) = None"
  "watcher_enabled (dirwatch_clear_watches s) = watcher_enabled s"
  "watcher_quiet (dirwatch_clear_watches s) = watcher_quiet s"
  "pending_left (dirwatch_clear_watches s) = pending_left s"
  "pending_right (dirwatch_clear_watches s) = pending_right s"
  by (simp_all add: dirwatch_clear_watches_def dirwatch_reset_paths_def Let_def)

lemma disable_branch_fields:
  "inotify_fd (disable_branch s) = (if 0 \<le> inotify_fd s then - 1 else inotify_fd s)"
  "timer_fd (disable_branch s) = (if 0 \<le> timer_fd s then - 1 else timer_fd s)"
  "wd_left (disable_branch s) = (if 0 \<le> inotify_fd s then - 1 else wd_left s)"
  "wd_right (disable_branch s) = (if 0 \<le> inotify_fd s then - 1 else wd_right s)"
  "left_path (disable_branch s) = (if 0 \<le> inotify_fd s then None else left_path s)"
  "right_path (disable_branch s) = (if 0 \<le> inotify_fd s then None else right_path s)"
  "watcher_enabled (disable_branch s) = watcher_enabled s"
  "watcher_quiet (disable_branch s) = watcher_quiet s"
  "pending_left (disable_branch s) = pending_left s"
  "pending_right (disable_branch s) = pending_right s"
  by (simp_all add: disable_branch_def Let_def)

lemma enable_branch_quiet [simp]:
  "watcher_quiet (enable_branch w s) = watcher_quiet s"
  "pending_left (enable_branch w s) = pending_left s"
  "pending_right (enable_branch w s) = pending_right s"
  by (simp_all add: enable_branch_def Let_def)

lemma enable_branch_inv:
  "watcher_enabled s \<Longrightarrow> inotify_fd s < 0 \<Longrightarrow> timer_fd s < 0 \<Longrightarrow> wd_left s < 0 \<Longrightarrow> wd_right s < 0 \<Longrightarrow>
   left_path s = None \<Longrightarrow> right_path s = None \<Longrightarrow> dw_inv (enable_branch w s)"
  by (auto simp: enable_branch_def Let_def dw_inv_def intro!: update_watches_inv[unfolded dw_inv_def])

lemma set_enabled_inv: "dw_inv s \<Longrightarrow> dw_inv (dirwatch_set_enabled w b s)"
  apply (cases b; cases "watcher_enabled s")
  apply (simp_all add: dirwatch_set_enabled_def Let_def update_watches_inv)
   apply (rule enable_branch_inv; simp add: dw_inv_def)
  apply (simp add: dw_inv_def disable_branch_fields)
  done

lemma set_quiet_inv: "dw_inv s \<Longrightarrow> dw_inv (dirwatch_set_quiet w q s)"
  by (simp add: dw_inv_def dirwatch_set_quiet_def Let_def)

lemma reachable_inv: "reachable s \<Longrightarrow> dw_inv s"
proof (induction rule: reachable.induct)
  case r_init
  show ?case by (simp add: dw_inv_def dw_init_def)
next
  case (r_set_enabled s w b)
  then show ?case by (simp add: set_enabled_inv)
next
  case (r_set_quiet s w q)
  then show ?case by (simp add: set_quiet_inv)
next
  case (r_dir_changed s w p)
  then show ?case by (simp add: dirwatch_panel_dir_changed_def update_watches_inv)
next
  case (r_callback s w fd reads)
  then show ?case by (simp add: dw_inv_def)
next
  case (r_timer s w fd)
  then show ?case by (simp add: dw_inv_def)
qed

lemma watching_eq:
  "watching = \<lparr> inotify_fd = 3, timer_fd = 4, wd_left = 1, wd_right = 2,
       left_path = Some ''/tmp'', right_path = Some ''/var'',
       watcher_enabled = True, watcher_quiet = False,
       pending_left = False, pending_right = False,
       calls = [Inotify_init1, Add_select_channel 3, Timerfd_create, Add_select_channel 4,
                Inotify_add_watch 3 ''/tmp'' DW_MASK, Inotify_add_watch 3 ''/var'' DW_MASK] \<rparr>"
  by (simp add: watching_def world_tmp_var_def panel_in_def dw_eval)

lemma left_pending_eq:
  "left_pending = watching \<lparr> pending_left := True,
      calls := calls watching @ [Timerfd_settime 4 2] \<rparr>"
  by (simp add: left_pending_def watching_eq world_tmp_var_def change_in_tmp_def dw_eval)

lemma reachable_watching: "reachable watching"
  unfolding watching_def by (intro reachable.intros)

lemma reachable_left_pending: "reachable left_pending"
  unfolding left_pending_def by (intro reachable.intros reachable_watching)

lemma dw_init_fields [simp]:
  "\<not> watcher_enabled dw_init" "\<not> watcher_quiet dw_init"
  by (simp_all add: dw_init_def)


lemma quiet_left_pending_eq:
  "quiet_left_pending = watching \<lparr> watcher_quiet := True, pending_left := True,
      calls := calls watching @ [Timerfd_settime 4 2] \<rparr>"
  by (simp add: quiet_left_pending_def watching_eq world_tmp_var_def change_in_tmp_def dw_eval)

lemma reachable_quiet_left_pending: "reachable quiet_left_pending"
  unfolding quiet_left_pending_def by (intro reachable.intros reachable_watching)

lemma reachable_quiet_pending_disabled: "reachable quiet_pending_disabled"
  unfolding quiet_pending_disabled_def by (intro reachable.intros reachable_quiet_left_pending)

lemma quiet_pending_disabled_eq:
  "quiet_pending_disabled =
     \<lparr> inotify_fd = - 1, timer_fd = - 1, wd_left = - 1, wd_right = - 1,
       left_path = None, right_path = None,
       watcher_enabled = False, watcher_quiet = True,
       pending_left = True, pending_right = False,
       calls = calls quiet_left_pending
               @ [Delete_select_channel 3, Inotify_rm_watch 3 1, Inotify_rm_watch 3 2, Close 3,
                  Delete_select_channel 4, Close 4] \<rparr>"
  by (simp add: quiet_pending_disabled_def quiet_left_pending_eq watching_eq dw_eval)






subsection \<open>The event scan\<close>




subsection \<open>The update blocks\<close>













subsection \<open>Apply, quiet and disabled runs\<close>

lemma apply_pending_eq:
  "dirwatch_apply_pending w s =
     s \<lparr>pending_left := False, pending_right := False, calls := calls s @ apply_calls w s\<rparr>"
  by (cases s)
     (simp add: dirwatch_apply_pending_def apply_calls_def reload_calls_def
        dirwatch_disarm_timer_def do_call_def Let_def split: option.split)

lemma set_enabled_quiet [simp]:
  "watcher_quiet (dirwatch_set_enabled w b s) = watcher_quiet s"
  by (simp add: dirwatch_set_enabled_def Let_def disable_branch_fields)

lemma set_enabled_false_disabled [simp]:
  "\<not> watcher_enabled (dirwatch_set_enabled w False s)"
  by (simp add: dirwatch_set_enabled_def Let_def disable_branch_fields)

lemma step_while_disabled:
  assumes "\<not> watcher_enabled s" and "\<not> enables e"
  shows "\<not> watcher_enabled (step e s) \<and> watcher_quiet (step e s) = watcher_quiet s"
  using assms
  by (cases e)
     (simp_all add: dirwatch_set_quiet_def dirwatch_panel_dir_changed_def
        dirwatch_set_enabled_def)

lemma run_while_disabled:
  assumes "\<not> watcher_enabled s" and "\<forall>e\<in>set es. \<not> enables e"
  shows "\<not> watcher_enabled (run es s) \<and> watcher_quiet (run es s) = watcher_quiet s"
  using assms
proof (induction es arbitrary: s)
  case Nil
  then show ?case by simp
next
  case (Cons e es)
  then have "\<not> watcher_enabled (step e s) \<and> watcher_quiet (step e s) = watcher_quiet s"
    by (intro step_while_disabled) simp_all
  with Cons show ?case by simp
qed

lemma timer_callback_quiet:
  assumes "watcher_quiet t"
  shows "pending_left (dirwatch_timer_callback w fd t) = pending_left t"
    "pending_right (dirwatch_timer_callback w fd t) = pending_right t"
    "calls (dirwatch_timer_callback w fd t)
       = calls t @ (if fd = timer_fd t \<and> 0 \<le> timer_fd t
                    then [Timerfd_settime (timer_fd t) 0] else [])"
  using assms by (simp_all add: dirwatch_timer_callback_def dirwatch_disarm_timer_def)

section \<open>The claims\<close>

subsection \<open>C1: what disabling clears\<close>

text \<open>
  C1 as stated asks that after \<open>dirwatch_set_enabled (FALSE)\<close> both pending flags are
  false. The disable path never assigns \<open>pending_left\<close> or \<open>pending_right\<close>: with the left
  panel watched and one change record read for it, the left flag is set, and it is still
  set after disabling.
\<close>

theorem disable_keeps_pending_counterexample:
  "reachable left_pending \<and> pending_left (dirwatch_set_enabled world_tmp_var False left_pending)"
proof (rule conjI)
  show "reachable left_pending" by (rule reachable_left_pending)
  show "pending_left (dirwatch_set_enabled world_tmp_var False left_pending)"
    by (simp add: left_pending_eq watching_eq dw_eval)
qed

text \<open>
  C1, amended: after \<open>dirwatch_set_enabled (FALSE)\<close> from any reachable state the watcher
  is disabled, both watch descriptors and both paths are absent, and both the inotify
  descriptor and the timer descriptor are absent.
\<close>

theorem disable_clears_bindings_and_descriptors:
  assumes "reachable s"
  shows "\<not> watcher_enabled (dirwatch_set_enabled w False s)
       \<and> wd_left (dirwatch_set_enabled w False s) < 0
       \<and> wd_right (dirwatch_set_enabled w False s) < 0
       \<and> left_path (dirwatch_set_enabled w False s) = None
       \<and> right_path (dirwatch_set_enabled w False s) = None
       \<and> inotify_fd (dirwatch_set_enabled w False s) < 0
       \<and> timer_fd (dirwatch_set_enabled w False s) < 0"
proof -
  have "dw_inv s" using assms by (rule reachable_inv)
  then show ?thesis
    by (cases "watcher_enabled s")
       (simp_all add: dirwatch_set_enabled_def Let_def disable_branch_fields dw_inv_def)
qed

text \<open>
  The amended C1 at the state above, which is reachable and has watches, paths and both
  descriptors before it is disabled.
\<close>

theorem disable_clears_bindings_and_descriptors_witness:
  "reachable left_pending
   \<and> \<not> watcher_enabled (dirwatch_set_enabled world_tmp_var False left_pending)
   \<and> wd_left (dirwatch_set_enabled world_tmp_var False left_pending) < 0
   \<and> left_path (dirwatch_set_enabled world_tmp_var False left_pending) = None
   \<and> inotify_fd (dirwatch_set_enabled world_tmp_var False left_pending) < 0
   \<and> timer_fd (dirwatch_set_enabled world_tmp_var False left_pending) < 0"
  using disable_clears_bindings_and_descriptors [OF reachable_left_pending, of world_tmp_var]
    reachable_left_pending by simp

subsection \<open>C2: a registration that fails\<close>

text \<open>
  C2 asks that a slot's watch descriptor is present exactly when its path is, and that a
  failed registration leaves no path behind. The update block assigns the path right
  after \<open>inotify_add_watch\<close> without looking at its result: enabling the watcher in a
  world whose kernel refuses the watch on \<open>/root\<close> reaches a state where the left watch
  descriptor is \<open>-1\<close> and the left path is \<open>/root\<close>; and since the path now equals the
  panel's, notifying the watcher again changes nothing and asks the kernel nothing.
\<close>

theorem failed_registration_stores_path:
  "reachable (dirwatch_set_enabled world_denied True dw_init)
   \<and> watcher_enabled (dirwatch_set_enabled world_denied True dw_init)
   \<and> wd_left (dirwatch_set_enabled world_denied True dw_init) = - 1
   \<and> left_path (dirwatch_set_enabled world_denied True dw_init) = Some ''/root''
   \<and> dirwatch_panel_dir_changed world_denied (Some 1)
        (dirwatch_set_enabled world_denied True dw_init)
      = dirwatch_set_enabled world_denied True dw_init"
proof -
  have r: "reachable (dirwatch_set_enabled world_denied True dw_init)"
    by (intro reachable.intros)
  have e: "dirwatch_set_enabled world_denied True dw_init =
      \<lparr> inotify_fd = 3, timer_fd = 4, wd_left = - 1, wd_right = - 1,
        left_path = Some ''/root'', right_path = None,
        watcher_enabled = True, watcher_quiet = False,
        pending_left = False, pending_right = False,
        calls = [Inotify_init1, Add_select_channel 3, Timerfd_create, Add_select_channel 4,
                 Inotify_add_watch 3 ''/root'' DW_MASK] \<rparr>"
    by (simp add: world_denied_def panel_in_def dw_eval)
  show ?thesis
    using r unfolding e
    by (simp add: world_denied_def panel_in_def dw_eval)
qed

subsection \<open>C3: notifying a directory change\<close>




subsection \<open>C4: an unchanged path\<close>




subsection \<open>C5: the timer expires\<close>

text \<open>
  C5 as stated asks that on an apply the reload callback is invoked for each slot with a
  pending flag. \<open>dirwatch_apply_pending\<close> reloads a panel only if its pointer is not
  \<open>NULL\<close>: with the left flag set and the left panel pointer \<open>NULL\<close>, expiry of the timer
  repaints the screen and disarms the timer, and reloads nothing.
\<close>

theorem reload_skipped_without_panel_counterexample:
  "reachable left_pending \<and> pending_left left_pending \<and> \<not> watcher_quiet left_pending
   \<and> timer_fd left_pending = 4 \<and> left_panel world_left_gone = None
   \<and> calls (dirwatch_timer_callback world_left_gone 4 left_pending)
       = calls left_pending @ [Repaint_screen, Timerfd_settime 4 0]"
proof -
  have "calls (dirwatch_timer_callback world_left_gone 4 left_pending)
       = calls left_pending @ [Repaint_screen, Timerfd_settime 4 0]"
    by (simp add: left_pending_eq watching_eq world_left_gone_def world_tmp_var_def dw_eval)
  moreover have "pending_left left_pending \<and> \<not> watcher_quiet left_pending
      \<and> timer_fd left_pending = 4 \<and> left_panel world_left_gone = None"
    by (simp add: left_pending_eq watching_eq world_left_gone_def)
  ultimately show ?thesis using reachable_left_pending by blast
qed

text \<open>
  C5, amended: when the timer descriptor becomes readable, then in quiet mode the timer
  is disarmed and nothing else changes (both pending flags keep their values); otherwise
  \<open>panel_reload\<close> is called once for each slot whose pending flag is set and whose panel
  pointer is not \<open>NULL\<close> (left before right), \<open>repaint_screen\<close> is called exactly once if a
  pending flag was set and not at all otherwise, both pending flags are cleared, and the
  timer is disarmed.
\<close>

theorem timer_expiry_defers_or_applies:
  assumes "fd = timer_fd s" and "0 \<le> fd"
  shows "(watcher_quiet s \<longrightarrow>
            dirwatch_timer_callback w fd s = s \<lparr>calls := calls s @ [Timerfd_settime fd 0]\<rparr>)
       \<and> (\<not> watcher_quiet s \<longrightarrow>
            dirwatch_timer_callback w fd s
              = s \<lparr>pending_left := False, pending_right := False,
                   calls := calls s @ reload_calls w s
                            @ (if pending_left s \<or> pending_right s then [Repaint_screen] else [])
                            @ [Timerfd_settime fd 0]\<rparr>)"
  using assms
  by (simp add: dirwatch_timer_callback_def apply_pending_eq apply_calls_def
        dirwatch_disarm_timer_def do_call_def)

text \<open>
  The amended C5 at timer descriptor 4, with a change pending for the left panel: once
  in normal mode and once in quiet mode.
\<close>

theorem timer_expiry_defers_or_applies_witness:
  "4 = timer_fd left_pending \<and> (0::int) \<le> 4 \<and> \<not> watcher_quiet left_pending
   \<and> dirwatch_timer_callback world_tmp_var 4 left_pending
       = left_pending \<lparr>pending_left := False, pending_right := False,
            calls := calls left_pending @ [Panel_reload 1, Repaint_screen, Timerfd_settime 4 0]\<rparr>
   \<and> 4 = timer_fd quiet_left_pending \<and> watcher_quiet quiet_left_pending
   \<and> dirwatch_timer_callback world_tmp_var 4 quiet_left_pending
       = quiet_left_pending \<lparr>calls := calls quiet_left_pending @ [Timerfd_settime 4 0]\<rparr>"
proof -
  have a: "4 = timer_fd left_pending" "\<not> watcher_quiet left_pending"
    "pending_left left_pending" "\<not> pending_right left_pending"
    by (simp_all add: left_pending_eq watching_eq)
  have b: "4 = timer_fd quiet_left_pending" "watcher_quiet quiet_left_pending"
    by (simp_all add: quiet_left_pending_eq watching_eq)
  have r: "reload_calls world_tmp_var left_pending = [Panel_reload 1]"
    using a by (simp add: reload_calls_def world_tmp_var_def)
  have z: "(0::int) \<le> 4" by simp
  show ?thesis
    using timer_expiry_defers_or_applies [OF a(1) z, of world_tmp_var]
      timer_expiry_defers_or_applies [OF b(1) z, of world_tmp_var] a b r
    by simp
qed

subsection \<open>C6: leaving quiet mode\<close>

text \<open>
  C6 as stated speaks of every quiet state with a pending flag. Two such states escape
  it. A watcher disabled while quiet with a change pending stays quiet and keeps its flag
  under \<open>dirwatch_set_quiet (FALSE)\<close>, which returns at once when the watcher is disabled.
  And an enabled, quiet watcher with the left flag set but a \<open>NULL\<close> left panel pointer
  repaints and disarms without any reload.
\<close>

theorem set_quiet_false_counterexample:
  "reachable quiet_pending_disabled
   \<and> watcher_quiet quiet_pending_disabled \<and> pending_left quiet_pending_disabled
   \<and> dirwatch_set_quiet world_tmp_var False quiet_pending_disabled = quiet_pending_disabled
   \<and> reachable quiet_left_pending \<and> watcher_enabled quiet_left_pending
   \<and> watcher_quiet quiet_left_pending \<and> pending_left quiet_left_pending
   \<and> calls (dirwatch_set_quiet world_left_gone False quiet_left_pending)
       = calls quiet_left_pending @ [Repaint_screen, Timerfd_settime 4 0]"
proof -
  have 1: "watcher_quiet quiet_pending_disabled \<and> pending_left quiet_pending_disabled
      \<and> dirwatch_set_quiet world_tmp_var False quiet_pending_disabled = quiet_pending_disabled"
    by (simp add: quiet_pending_disabled_eq dirwatch_set_quiet_def)
  have 2: "watcher_enabled quiet_left_pending
      \<and> watcher_quiet quiet_left_pending \<and> pending_left quiet_left_pending
      \<and> calls (dirwatch_set_quiet world_left_gone False quiet_left_pending)
          = calls quiet_left_pending @ [Repaint_screen, Timerfd_settime 4 0]"
    by (simp add: quiet_left_pending_eq watching_eq world_left_gone_def world_tmp_var_def dw_eval)
  show ?thesis
    using 1 2 reachable_quiet_pending_disabled reachable_quiet_left_pending by blast
qed

text \<open>
  C6, amended: for every enabled state in quiet mode with a pending flag set,
  \<open>dirwatch_set_quiet (FALSE)\<close> clears quiet and applies within the call: \<open>panel_reload\<close> is
  called once for each slot whose flag is set and whose panel pointer is not \<open>NULL\<close>,
  \<open>repaint_screen\<close> once, both flags are cleared and the timer (if there is one) is
  disarmed. \<open>dirwatch_set_quiet (FALSE)\<close> in normal mode, \<open>dirwatch_set_quiet (TRUE)\<close> in
  quiet mode, and either of them while the watcher is disabled, change nothing.
\<close>

theorem set_quiet_false_applies_at_once:
  "(watcher_enabled s \<and> watcher_quiet s \<and> (pending_left s \<or> pending_right s) \<longrightarrow>
      dirwatch_set_quiet w False s
        = s \<lparr>watcher_quiet := False, pending_left := False, pending_right := False,
             calls := calls s @ reload_calls w s @ [Repaint_screen]
                      @ (if 0 \<le> timer_fd s then [Timerfd_settime (timer_fd s) 0] else [])\<rparr>)
   \<and> (\<not> watcher_quiet s \<longrightarrow> dirwatch_set_quiet w False s = s)
   \<and> (watcher_quiet s \<longrightarrow> dirwatch_set_quiet w True s = s)
   \<and> (\<not> watcher_enabled s \<longrightarrow> dirwatch_set_quiet w q s = s)"
  by (cases s)
     (auto simp: dirwatch_set_quiet_def apply_pending_eq apply_calls_def reload_calls_def
        Let_def split: option.split)

text \<open>
  The amended C6 at the quiet state with a change pending for the left panel, at the
  watching state in normal mode, and at the disabled quiet state.
\<close>

theorem set_quiet_false_applies_at_once_witness:
  "watcher_enabled quiet_left_pending \<and> watcher_quiet quiet_left_pending
   \<and> pending_left quiet_left_pending
   \<and> dirwatch_set_quiet world_tmp_var False quiet_left_pending
       = quiet_left_pending \<lparr>watcher_quiet := False, pending_left := False,
            pending_right := False,
            calls := calls quiet_left_pending
                     @ [Panel_reload 1, Repaint_screen, Timerfd_settime 4 0]\<rparr>
   \<and> dirwatch_set_quiet world_tmp_var True quiet_left_pending = quiet_left_pending
   \<and> \<not> watcher_quiet watching
   \<and> dirwatch_set_quiet world_tmp_var False watching = watching
   \<and> \<not> watcher_enabled quiet_pending_disabled
   \<and> dirwatch_set_quiet world_tmp_var False quiet_pending_disabled = quiet_pending_disabled"
proof -
  have a: "watcher_enabled quiet_left_pending" "watcher_quiet quiet_left_pending"
    "pending_left quiet_left_pending" "\<not> pending_right quiet_left_pending"
    "timer_fd quiet_left_pending = 4"
    by (simp_all add: quiet_left_pending_eq watching_eq)
  have r: "reload_calls world_tmp_var quiet_left_pending = [Panel_reload 1]"
    using a by (simp add: reload_calls_def world_tmp_var_def)
  have b: "\<not> watcher_quiet watching" by (simp add: watching_eq)
  have c: "\<not> watcher_enabled quiet_pending_disabled"
    by (simp add: quiet_pending_disabled_eq)
  show ?thesis
    using set_quiet_false_applies_at_once [of quiet_left_pending world_tmp_var True]
      set_quiet_false_applies_at_once [of watching world_tmp_var False]
      set_quiet_false_applies_at_once [of quiet_pending_disabled world_tmp_var False]
      a r b c
    by simp
qed

subsection \<open>C7: enabling when the kernel refuses\<close>

text \<open>
  C7 as stated asks for a fall back to the disabled state when either source cannot be
  created. When only \<open>timerfd_create\<close> fails the code goes on: the watcher is enabled, the
  timer descriptor stays negative, and the watches are registered.
\<close>

theorem timer_failure_stays_enabled_counterexample:
  "timerfd_create world_no_timer < 0
   \<and> watcher_enabled (dirwatch_set_enabled world_no_timer True dw_init)
   \<and> timer_fd (dirwatch_set_enabled world_no_timer True dw_init) = - 1
   \<and> wd_left (dirwatch_set_enabled world_no_timer True dw_init) = 1"
  by (simp add: world_no_timer_def world_tmp_var_def panel_in_def dw_eval)

text \<open>
  C7, amended: enabling a disabled watcher (in a reachable state),
  if \<open>inotify_init1\<close> fails the watcher stays disabled, and the failed \<open>inotify_init1\<close>
  is the only call made (nothing is registered with the select loop, no timer is asked
  for, and nothing else changes but the stored result); if \<open>inotify_init1\<close> succeeds and
  only \<open>timerfd_create\<close> fails the watcher is enabled with its inotify descriptor
  registered and no timer, and the watches are updated as usual.
\<close>

theorem enable_failure_modes:
  assumes "reachable s" and "\<not> watcher_enabled s"
  shows "(inotify_init1 w < 0 \<longrightarrow>
            dirwatch_set_enabled w True s
              = s \<lparr>inotify_fd := inotify_init1 w, calls := calls s @ [Inotify_init1]\<rparr>)
       \<and> (0 \<le> inotify_init1 w \<and> timerfd_create w < 0 \<longrightarrow>
            dirwatch_set_enabled w True s
              = dirwatch_update_watches w
                  (s \<lparr>inotify_fd := inotify_init1 w, timer_fd := timerfd_create w,
                      watcher_enabled := True,
                      calls := calls s @ [Inotify_init1, Add_select_channel (inotify_init1 w),
                                          Timerfd_create]\<rparr>)
            \<and> watcher_enabled (dirwatch_set_enabled w True s)
            \<and> inotify_fd (dirwatch_set_enabled w True s) = inotify_init1 w
            \<and> timer_fd (dirwatch_set_enabled w True s) < 0)"
proof -
  have "dw_inv s" using assms(1) by (rule reachable_inv)
  with assms(2) have fds: "inotify_fd s < 0" "timer_fd s < 0" by (simp_all add: dw_inv_def)
  show ?thesis
    using assms(2) fds
    by (cases s) (simp add: dirwatch_set_enabled_def enable_branch_def Let_def do_call_def)
qed

text \<open>
  The amended C7 from the initial state, in a world without inotify and in a world
  without timers.
\<close>

theorem enable_failure_modes_witness:
  "reachable dw_init \<and> \<not> watcher_enabled dw_init
   \<and> inotify_init1 world_no_inotify < 0
   \<and> dirwatch_set_enabled world_no_inotify True dw_init = dw_init \<lparr>calls := [Inotify_init1]\<rparr>
   \<and> 0 \<le> inotify_init1 world_no_timer \<and> timerfd_create world_no_timer < 0
   \<and> watcher_enabled (dirwatch_set_enabled world_no_timer True dw_init)
   \<and> timer_fd (dirwatch_set_enabled world_no_timer True dw_init) < 0"
proof -
  have i: "reachable dw_init" "\<not> watcher_enabled dw_init"
    by (rule r_init) (simp add: dw_init_def)
  have n: "inotify_init1 world_no_inotify = - 1" "inotify_init1 world_no_timer = 3"
    "timerfd_create world_no_timer = - 1"
    by (simp_all add: world_no_inotify_def world_no_timer_def world_tmp_var_def)
  have c: "dw_init \<lparr>inotify_fd := - 1, calls := calls dw_init @ [Inotify_init1]\<rparr>
           = dw_init \<lparr>calls := [Inotify_init1]\<rparr>"
    by (simp add: dw_init_def)
  show ?thesis
    using enable_failure_modes [OF i, of world_no_inotify]
      enable_failure_modes [OF i, of world_no_timer] i n c
    by simp
qed

subsection \<open>C8: which slots a change record flags\<close>




subsection \<open>C9: quiet mode across disable and enable\<close>

text \<open>
  C9: \<open>dirwatch_set_enabled\<close> does not modify \<open>watcher_quiet\<close>. From a quiet state,
  after disabling, any run of events that does not enable, and enabling again, the
  watcher is still quiet; and when change records are then read and the timer expires,
  the pending flags stay as the records left them and the only call made is the
  disarming of the timer: nothing is reloaded or repainted.
\<close>

theorem quiet_survives_disable_and_enable:
  assumes "watcher_quiet s" and "\<forall>e\<in>set es. \<not> enables e"
  shows "watcher_quiet (dirwatch_set_enabled w1 False s)
       \<and> watcher_quiet (dirwatch_set_enabled w2 True (run es (dirwatch_set_enabled w1 False s)))
       \<and> (let t = dirwatch_callback w3 fd reads
                    (dirwatch_set_enabled w2 True (run es (dirwatch_set_enabled w1 False s)))
          in pending_left (dirwatch_timer_callback w4 fd' t) = pending_left t
             \<and> pending_right (dirwatch_timer_callback w4 fd' t) = pending_right t
             \<and> calls (dirwatch_timer_callback w4 fd' t)
                 = calls t @ (if fd' = timer_fd t \<and> 0 \<le> timer_fd t
                              then [Timerfd_settime (timer_fd t) 0] else []))"
proof -
  let ?d = "dirwatch_set_enabled w1 False s"
  let ?e = "dirwatch_set_enabled w2 True (run es ?d)"
  have d: "watcher_quiet ?d" using assms(1) by simp
  have "watcher_quiet (run es ?d) = watcher_quiet ?d"
    using run_while_disabled [of ?d es] assms(2) by simp
  with d have e: "watcher_quiet ?e" by simp
  then have "watcher_quiet (dirwatch_callback w3 fd reads ?e)" by simp
  then show ?thesis
    using d e by (simp add: timer_callback_quiet Let_def)
qed

text \<open>
  C9 from the quiet watching state: while disabled, \<open>dirwatch_set_quiet (FALSE)\<close> and a
  timer callback are tried; after enabling again a change for the left panel is read and
  the timer expires, and the left flag is still set.
\<close>

theorem quiet_survives_disable_and_enable_witness:
  "watcher_quiet quiet_watching
   \<and> list_all (\<lambda>e. \<not> enables e) [Set_quiet world_tmp_var False, Timer_readable world_tmp_var 4]
   \<and> watcher_quiet (dirwatch_set_enabled world_tmp_var True
        (run [Set_quiet world_tmp_var False, Timer_readable world_tmp_var 4]
           (dirwatch_set_enabled world_tmp_var False quiet_watching)))
   \<and> watcher_enabled (dirwatch_set_enabled world_tmp_var True
        (run [Set_quiet world_tmp_var False, Timer_readable world_tmp_var 4]
           (dirwatch_set_enabled world_tmp_var False quiet_watching)))
   \<and> pending_left (dirwatch_timer_callback world_tmp_var 4
        (dirwatch_callback world_tmp_var 3 [[change_in_tmp]]
           (dirwatch_set_enabled world_tmp_var True
              (run [Set_quiet world_tmp_var False, Timer_readable world_tmp_var 4]
                 (dirwatch_set_enabled world_tmp_var False quiet_watching)))))"
proof -
  let ?es = "[Set_quiet world_tmp_var False, Timer_readable world_tmp_var 4]"
  let ?e = "dirwatch_set_enabled world_tmp_var True
              (run ?es (dirwatch_set_enabled world_tmp_var False quiet_watching))"
  have q: "watcher_quiet quiet_watching"
    by (simp add: quiet_watching_def watching_eq dirwatch_set_quiet_def)
  have n: "\<forall>e\<in>set ?es. \<not> enables e" by simp
  have e: "?e = watching \<lparr> watcher_quiet := True,
      calls := calls watching
        @ [Delete_select_channel 3, Inotify_rm_watch 3 1, Inotify_rm_watch 3 2, Close 3,
           Delete_select_channel 4, Close 4]
        @ calls watching \<rparr>"
    by (simp add: quiet_watching_def watching_eq world_tmp_var_def panel_in_def dw_eval)
  have p: "pending_left (dirwatch_callback world_tmp_var 3 [[change_in_tmp]] ?e)"
    unfolding e by (simp add: watching_eq change_in_tmp_def dirwatch_callback_def)
  have en: "watcher_enabled ?e" unfolding e by (simp add: watching_eq)
  show ?thesis
    using quiet_survives_disable_and_enable
            [OF q n, of world_tmp_var world_tmp_var world_tmp_var 3 "[[change_in_tmp]]"
               world_tmp_var 4]
      q p en
    by (simp add: Let_def)
qed

subsection \<open>C10: quiet mode while disabled\<close>

text \<open>
  C10: while the watcher is disabled, \<open>dirwatch_set_quiet\<close> with either argument
  leaves every variable as it is and makes no call.
\<close>

theorem set_quiet_disabled_noop:
  assumes "\<not> watcher_enabled s"
  shows "dirwatch_set_quiet w q s = s"
  using assms by (simp add: dirwatch_set_quiet_def)

text \<open>
  C10 at the initial state, for both arguments.
\<close>

theorem set_quiet_disabled_noop_witness:
  "\<not> watcher_enabled dw_init \<and> dirwatch_set_quiet world_tmp_var True dw_init = dw_init
   \<and> dirwatch_set_quiet world_tmp_var False dw_init = dw_init"
  using set_quiet_disabled_noop [of dw_init world_tmp_var True]
    set_quiet_disabled_noop [of dw_init world_tmp_var False]
  by simp

end
